theory Spec2Isabelle
  imports Main
begin

section \<open>The application class of \<^verbatim>\<open>src/app.ts\<close>\<close>

text \<open>
  \<^verbatim>\<open>App\<close> wires an Express application: it registers middleware, mounts the user
  routes, registers the exception filter, connects the storage, registers a SIGINT
  handler and starts listening. Every statement of the class is a call into a
  collaborator (Express, the storage, the logger, the configuration service, the Node
  process), so the model is state passing over two pieces of state:
  \<^item> the instance (\<open>App\<close>): the Express application it owns, as the list of layers
    registered with \<^verbatim>\<open>use\<close> in registration order, and the port;
  \<^item> the hosting process (\<open>process\<close>): the trace of collaborator calls in the order
    they are made, the listeners registered with \<^verbatim>\<open>process.on\<close>, the callbacks handed to
    \<^verbatim>\<open>listen\<close> that have not run yet, the ports its servers listen on, and whether the
    process is still running.
  What an awaited collaborator promise does (fulfil, reject, never settle) is not decided
  by this class: it is an argument of the model. So is what the host does next (a server
  starts to listen or fails to, a signal arrives): each is an event function of its own.
\<close>

subsection \<open>Values handed to the collaborators\<close>

text \<open>How an awaited promise ends: fulfilled, rejected with a reason, or never settled.\<close>

datatype 'e outcome = Fulfilled | Rejected 'e | Pending

text \<open>
  The reasons \<^verbatim>\<open>init\<close> can be rejected with: the error Node's \<^verbatim>\<open>listen\<close> throws for a port
  outside 0 to 65535 (it carries the port), or any other thrown value.
\<close>

datatype 'e error = ERR_SOCKET_BAD_PORT int | Thrown 'e

text \<open>
  The values passed to \<^verbatim>\<open>this.app.use\<close>, by the expression that builds them:
  \<^verbatim>\<open>helmet()\<close>, \<^verbatim>\<open>bodyParser.urlencoded({ extended })\<close>, \<^verbatim>\<open>bodyParser.json()\<close>,
  \<^verbatim>\<open>morgan(format)\<close>, \<^verbatim>\<open>this.userController.router\<close> and the bound
  \<^verbatim>\<open>this.exceptionFilter.catch\<close>.
\<close>

datatype handler =
    Helmet
  | BodyParserUrlencoded bool
  | BodyParserJson
  | Morgan string
  | UserControllerRouter
  | ExceptionFilterCatch

text \<open>A registered layer: the path given to \<^verbatim>\<open>use\<close> (if one is given) and the handler.\<close>

datatype layer = Layer "string option" handler

text \<open>
  The two closures the class creates. \<open>StorageShutdown\<close> is the async arrow function of
  lines 84 to 88. \<open>LogStarted\<close> is the arrow function of lines 95 to 97; it reads
  \<^verbatim>\<open>this.port\<close> when it runs, and the field is \<^verbatim>\<open>readonly\<close> and assigned in the
  constructor only, so the closure carries the port.
\<close>

datatype signal_handler = StorageShutdown

datatype listen_callback = LogStarted int

text \<open>One collaborator call, as an instrumented fake would record it.\<close>

datatype event =
    ConfigGet string
  | AppUse layer
  | StorageConnect
  | ProcessOn string signal_handler
  | AppListen int listen_callback
  | LoggerInfo string string
  | StorageDisconnect
  | ProcessExit int

text \<open>
  \<open>Exited c\<close>: the process has ended with exit code \<open>c\<close>, by \<^verbatim>\<open>process.exit\<close> or by Node
  itself after an error nothing handled. \<open>Killed s\<close>: ended by the default action of
  signal \<open>s\<close>.
\<close>

datatype proc_status = Running | Exited int | Killed string

record TServerConfig =
  port :: int

type_synonym IConfigService = "string \<Rightarrow> TServerConfig"

record App =
  app :: "layer list"
  port :: int

text \<open>
  \<open>servers\<close>: the servers of accepted \<^verbatim>\<open>listen\<close> calls that have announced nothing yet,
  oldest first, each with the port asked for and its callback. \<open>listening\<close>: the ports
  the servers of this process listen on.
\<close>

record process =
  trace :: "event list"
  listeners :: "(string \<times> signal_handler) list"
  servers :: "(int \<times> listen_callback) list"
  listening :: "int list"
  status :: proc_status

text \<open>A process that has just started: nothing called, nothing registered.\<close>

definition boot :: process where
  "boot = \<lparr>trace = [], listeners = [], servers = [], listening = [], status = Running\<rparr>"

subsection \<open>Collaborator calls\<close>

definition record_call :: "event \<Rightarrow> process \<Rightarrow> process" where
  "record_call ev p = p\<lparr>trace := trace p @ [ev]\<rparr>"

text \<open>\<^verbatim>\<open>this.app.use(h)\<close> and \<^verbatim>\<open>this.app.use(path, h)\<close>: the layer goes to the end of the stack.\<close>

definition app_use :: "layer \<Rightarrow> App \<Rightarrow> process \<Rightarrow> App \<times> process" where
  "app_use l a p = (a\<lparr>app := app a @ [l]\<rparr>, record_call (AppUse l) p)"

definition process_on :: "string \<Rightarrow> signal_handler \<Rightarrow> process \<Rightarrow> process" where
  "process_on name h p =
     record_call (ProcessOn name h) (p\<lparr>listeners := listeners p @ [(name, h)]\<rparr>)"

text \<open>
  \<^verbatim>\<open>this.app.listen(port, callback)\<close>. Node checks the port first: outside 0 to 65535 the
  call throws \<^verbatim>\<open>ERR_SOCKET_BAD_PORT\<close> and no server is started. Otherwise the call returns
  and the server announces itself later, by one of the two server events below. The
  result is the thrown error, if any, and the process.
\<close>

definition valid_port :: "int \<Rightarrow> bool" where
  "valid_port prt = (0 \<le> prt \<and> prt \<le> 65535)"

definition app_listen :: "int \<Rightarrow> listen_callback \<Rightarrow> process \<Rightarrow> 'e error option \<times> process" where
  "app_listen prt cb p =
     (let p1 = record_call (AppListen prt cb) p
      in if valid_port prt then (None, p1\<lparr>servers := servers p1 @ [(prt, cb)]\<rparr>)
         else (Some (ERR_SOCKET_BAD_PORT prt), p1))"

text \<open>\<^verbatim>\<open>process.exit(code)\<close> ends the process; the caller never continues.\<close>

definition process_exit :: "int \<Rightarrow> process \<Rightarrow> process" where
  "process_exit code p = (record_call (ProcessExit code) p)\<lparr>status := Exited code\<rparr>"

subsection \<open>Rendering the port in the template literal\<close>

text \<open>
  \<^verbatim>\<open>`${this.port}`\<close> converts the number to a string. For an integer of magnitude below
  \<open>10^21\<close> that is its decimal notation, with a minus sign when negative. From \<open>10^21\<close> on
  JavaScript writes an exponent; that notation is not modelled and the result is \<open>None\<close>.
\<close>

definition digit_char :: "nat \<Rightarrow> char" where
  "digit_char d = ''0123456789'' ! d"

fun decimal :: "nat \<Rightarrow> string" where
  "decimal n = (if n < 10 then [digit_char n] else decimal (n div 10) @ [digit_char (n mod 10)])"

declare decimal.simps [simp del]

definition number_to_string :: "int \<Rightarrow> string option" where
  "number_to_string i =
     (if \<bar>i\<bar> < 10 ^ 21
      then Some (if i < 0 then CHR ''-'' # decimal (nat (- i)) else decimal (nat i))
      else None)"

text \<open>
  What it means for a text to be the decimal numeral of a number, said without
  \<open>decimal\<close>: it is not empty, has digits only, has no leading zero unless it is the
  numeral of zero, and its digits, read from the left, give the number.
\<close>

definition digit_value :: "char \<Rightarrow> nat" where
  "digit_value c = of_char c - 48"

definition decimal_value :: "string \<Rightarrow> nat" where
  "decimal_value s = foldl (\<lambda>acc c. 10 * acc + digit_value c) 0 s"

definition is_decimal_numeral :: "string \<Rightarrow> nat \<Rightarrow> bool" where
  "is_decimal_numeral s n =
     (s \<noteq> [] \<and> list_all (\<lambda>c. c \<in> set ''0123456789'') s \<and>
      (if hd s = CHR ''0'' then s = ''0'' else True) \<and> decimal_value s = n)"

subsection \<open>The methods of \<^verbatim>\<open>App\<close>\<close>

text \<open>
  The constructor (lines 33 to 36): \<^verbatim>\<open>express()\<close> gives an application with no layer, and
  the port is the \<^verbatim>\<open>port\<close> field of what \<^verbatim>\<open>configService.get('server')\<close> returns.
\<close>

definition constructor :: "IConfigService \<Rightarrow> process \<Rightarrow> App \<times> process" where
  "constructor configService p =
     (\<lparr>app = [], port = TServerConfig.port (configService ''server'')\<rparr>,
      record_call (ConfigGet ''server'') p)"

definition useMiddleware :: "App \<Rightarrow> process \<Rightarrow> App \<times> process" where
  "useMiddleware a p =
     (let (a1, p1) = app_use (Layer None Helmet) a p;
          (a2, p2) = app_use (Layer None (BodyParserUrlencoded True)) a1 p1;
          (a3, p3) = app_use (Layer None BodyParserJson) a2 p2
      in app_use (Layer None (Morgan '':method :url :status'')) a3 p3)"

definition useRoutes :: "App \<Rightarrow> process \<Rightarrow> App \<times> process" where
  "useRoutes a p = app_use (Layer (Some ''/users'') UserControllerRouter) a p"

definition useExceptionFilters :: "App \<Rightarrow> process \<Rightarrow> App \<times> process" where
  "useExceptionFilters a p = app_use (Layer None ExceptionFilterCatch) a p"

text \<open>
  \<^verbatim>\<open>useDatabase\<close> (lines 80 to 89). \<open>connected\<close> is how the promise of
  \<^verbatim>\<open>this.memoryStorage.connect()\<close> ends. The method has no \<^verbatim>\<open>try\<close>: a rejection becomes
  the rejection of its own promise, and while the promise is unsettled the method stays
  suspended at the \<^verbatim>\<open>await\<close>.
\<close>

definition useDatabase :: "'e outcome \<Rightarrow> App \<Rightarrow> process \<Rightarrow> 'e outcome \<times> process" where
  "useDatabase connected a p =
     (let p1 = record_call StorageConnect p
      in case connected of
           Fulfilled \<Rightarrow> (Fulfilled, process_on ''SIGINT'' StorageShutdown p1)
         | Rejected e \<Rightarrow> (Rejected e, p1)
         | Pending \<Rightarrow> (Pending, p1))"

definition listen :: "App \<Rightarrow> process \<Rightarrow> 'e error option \<times> process" where
  "listen a p = app_listen (port a) (LogStarted (port a)) p"

text \<open>
  \<^verbatim>\<open>init\<close> (lines 41 to 48), with the same treatment of its \<^verbatim>\<open>await\<close>. Nothing catches
  what \<^verbatim>\<open>listen\<close> throws either: the promise of \<^verbatim>\<open>init\<close> is then rejected with it.
\<close>

definition init :: "'e error outcome \<Rightarrow> App \<Rightarrow> process \<Rightarrow> 'e error outcome \<times> App \<times> process" where
  "init connected a p =
     (let (a1, p1) = useMiddleware a p;
          (a2, p2) = useRoutes a1 p1;
          (a3, p3) = useExceptionFilters a2 p2
      in case useDatabase connected a3 p3 of
           (Fulfilled, p4) \<Rightarrow>
             (case listen a3 p4 of
                (None, p5) \<Rightarrow> (Fulfilled, a3, p5)
              | (Some err, p5) \<Rightarrow> (Rejected err, a3, p5))
         | (Rejected e, p4) \<Rightarrow> (Rejected e, a3, p4)
         | (Pending, p4) \<Rightarrow> (Pending, a3, p4))"

subsection \<open>The closures, run by the host\<close>

text \<open>The listen callback (line 96). \<open>None\<close>: the port has no modelled rendering.\<close>

fun run_listen_callback :: "listen_callback \<Rightarrow> process \<Rightarrow> process option" where
  "run_listen_callback (LogStarted prt) p =
     (case number_to_string prt of
        None \<Rightarrow> None
      | Some digits \<Rightarrow>
          Some (record_call (LoggerInfo ''app'' (''Server started listening on port '' @ digits)) p))"

text \<open>
  The SIGINT handler (lines 84 to 88) in its two parts: up to the \<^verbatim>\<open>await\<close> it calls
  \<^verbatim>\<open>disconnect\<close>; once that promise is settled it goes on. Fulfilled, it calls
  \<^verbatim>\<open>process.exit(0)\<close>, which does not return, so the handler's own promise stays
  unsettled. Rejected, nothing catches the reason and the handler's promise is rejected
  with it.
\<close>

fun signal_handler_call :: "signal_handler \<Rightarrow> process \<Rightarrow> process" where
  "signal_handler_call StorageShutdown p = record_call StorageDisconnect p"

fun signal_handler_resume :: "signal_handler \<Rightarrow> 'e outcome \<Rightarrow> process \<Rightarrow> 'e outcome \<times> process" where
  "signal_handler_resume StorageShutdown Fulfilled p = (Pending, process_exit 0 p)"
| "signal_handler_resume StorageShutdown (Rejected e) p = (Rejected e, p)"
| "signal_handler_resume StorageShutdown Pending p = (Pending, p)"

subsection \<open>Server events\<close>

text \<open>
  A server asked for port \<open>requested\<close> can come to listen on port \<open>bound\<close> only if
  \<open>bound\<close> is the port asked for or, when port 0 was asked for, whichever free port the
  operating system picks; and no server of this process holds \<open>bound\<close> already. (Other
  processes hold ports too: the condition is necessary, and which event happens is the
  host's choice.)
\<close>

definition can_bind :: "int \<Rightarrow> int \<Rightarrow> process \<Rightarrow> bool" where
  "can_bind requested bound p =
     ((if requested = 0 then 1 \<le> bound \<and> bound \<le> 65535 else bound = requested) \<and>
      bound \<notin> set (listening p))"

text \<open>
  The oldest waiting server starts to listen on \<open>bound\<close>: the callback given to its
  \<^verbatim>\<open>listen\<close> call runs, once. \<open>None\<close>: the event cannot happen in this state (or the
  callback's message is not modelled).
\<close>

definition emit_listening :: "int \<Rightarrow> process \<Rightarrow> process option" where
  "emit_listening bound p =
     (if status p \<noteq> Running then None
      else case servers p of
             [] \<Rightarrow> None
           | (requested, cb) # rest \<Rightarrow>
               if can_bind requested bound p
               then run_listen_callback cb (p\<lparr>servers := rest, listening := listening p @ [bound]\<rparr>)
               else None)"

text \<open>
  The oldest waiting server fails to listen (the port is in use, or not permitted). The
  server emits \<^verbatim>\<open>error\<close>; \<^verbatim>\<open>listen\<close> of Express 4 attaches the callback to the
  \<^verbatim>\<open>listening\<close> event only and the class attaches nothing to \<^verbatim>\<open>error\<close>, so the callback
  never runs, the error is uncaught and Node ends the process with exit code 1.
\<close>

definition emit_listen_error :: "process \<Rightarrow> process option" where
  "emit_listen_error p =
     (if status p \<noteq> Running then None
      else case servers p of
             [] \<Rightarrow> None
           | s # rest \<Rightarrow> Some (p\<lparr>servers := rest, status := Exited 1\<rparr>))"

subsection \<open>SIGINT\<close>

text \<open>
  The continuations of the handlers, in registration order; \<open>i\<close> counts the handlers
  already resumed and \<open>disconnected i\<close> is how the \<open>i\<close>-th \<^verbatim>\<open>disconnect\<close> promise ends.
  The promises that settle are taken to be settled when the continuations start (as those
  of an in-memory storage are), so the continuations run one after another before the
  host does anything else. Once the process has exited no further continuation runs.
  After the last continuation Node looks at the promises that were rejected with nothing
  handling the rejection (\<open>rejected\<close> says whether there is one so far): if there is one
  and the process has not exited, Node ends it with exit code 1.
\<close>

fun is_rejected :: "'e outcome \<Rightarrow> bool" where
  "is_rejected (Rejected e) = True"
| "is_rejected r = False"

fun resume_all ::
  "(nat \<Rightarrow> 'e outcome) \<Rightarrow> nat \<Rightarrow> bool \<Rightarrow> signal_handler list \<Rightarrow> process \<Rightarrow>
   'e outcome list \<times> process" where
  "resume_all disconnected i rejected [] p =
     ([], if rejected \<and> status p = Running then p\<lparr>status := Exited 1\<rparr> else p)"
| "resume_all disconnected i rejected (h # hs) p =
     (if status p \<noteq> Running then (Pending # map (\<lambda>_. Pending) hs, p)
      else (let (r, p1) = signal_handler_resume h (disconnected i) p;
                (rs, p2) = resume_all disconnected (Suc i) (rejected \<or> is_rejected r) hs p1
            in (r # rs, p2)))"

text \<open>
  The process receives SIGINT. With no listener for it Node ends the process itself.
  Otherwise every listener is called in registration order, each running up to its first
  \<^verbatim>\<open>await\<close>; then the continuations run. The result lists how each handler's promise ends.
\<close>

definition sigint_listeners :: "process \<Rightarrow> signal_handler list" where
  "sigint_listeners p = map snd (filter (\<lambda>(name, h). name = ''SIGINT'') (listeners p))"

definition emit_sigint :: "(nat \<Rightarrow> 'e outcome) \<Rightarrow> process \<Rightarrow> 'e outcome list \<times> process" where
  "emit_sigint disconnected p =
     (if status p \<noteq> Running then ([], p)
      else (let hs = sigint_listeners p
            in if hs = [] then ([], p\<lparr>status := Killed ''SIGINT''\<rparr>)
               else resume_all disconnected 0 False hs (fold signal_handler_call hs p)))"

subsection \<open>The access log\<close>

text \<open>
  \<^verbatim>\<open>morgan(format)\<close> builds a logger from a format string. The library is a collaborator;
  what is modelled here is its token syntax, as its \<^verbatim>\<open>compile\<close> function reads a format: a
  colon followed by two or more name characters (letters, digits, underscore, hyphen),
  as many as follow, is a token; if an opening bracket, one or more characters other
  than a closing bracket, and a closing bracket come next, they are the token's
  argument; every other character stands for itself. The versions of the library differ
  on double quotes, backslashes and control characters in a format: a format with one of
  those is outside the model (\<open>None\<close>).
\<close>

definition name_char :: "char \<Rightarrow> bool" where
  "name_char c =
     (let n = (of_char c :: nat)
      in (48 \<le> n \<and> n \<le> 57) \<or> (65 \<le> n \<and> n \<le> 90) \<or> (97 \<le> n \<and> n \<le> 122)
         \<or> c = CHR ''_'' \<or> c = CHR ''-'')"

definition plain_char :: "char \<Rightarrow> bool" where
  "plain_char c = (let n = (of_char c :: nat) in 32 \<le> n \<and> n \<noteq> 34 \<and> n \<noteq> 92)"

datatype piece = Text char | Token string "string option"

definition bracket_argument :: "string \<Rightarrow> (string \<times> string) option" where
  "bracket_argument s =
     (case s of
        [] \<Rightarrow> None
      | c # cs \<Rightarrow>
          if c = CHR ''['' \<and> takeWhile (\<lambda>x. x \<noteq> CHR '']'') cs \<noteq> [] \<and>
             dropWhile (\<lambda>x. x \<noteq> CHR '']'') cs \<noteq> []
          then Some (takeWhile (\<lambda>x. x \<noteq> CHR '']'') cs, tl (dropWhile (\<lambda>x. x \<noteq> CHR '']'') cs))
          else None)"

function scan_format :: "string \<Rightarrow> piece list" where
  "scan_format [] = []"
| "scan_format (c # cs) =
     (if c = CHR '':'' \<and> 2 \<le> length (takeWhile name_char cs)
      then (case bracket_argument (dropWhile name_char cs) of
              None \<Rightarrow> Token (takeWhile name_char cs) None # scan_format (dropWhile name_char cs)
            | Some (arg, rest) \<Rightarrow> Token (takeWhile name_char cs) (Some arg) # scan_format rest)
      else Text c # scan_format cs)"
  by pat_completeness auto
termination
proof (relation "measure length")
  show "wf (measure length)" by simp
next
  fix c :: char and cs
  show "(dropWhile name_char cs, c # cs) \<in> measure length"
    by (simp add: less_Suc_eq_le length_dropWhile_le)
next
  fix c :: char and cs x2 arg rest
  assume "bracket_argument (dropWhile name_char cs) = Some x2" and "(arg, rest) = x2"
  then obtain d ds where "dropWhile name_char cs = d # ds"
    and "rest = tl (dropWhile (\<lambda>x. x \<noteq> CHR '']'') ds)"
    by (auto simp: bracket_argument_def split: list.splits if_splits)
  then have "length rest \<le> length (dropWhile name_char cs)"
    using length_dropWhile_le [of "\<lambda>x. x \<noteq> CHR '']''" ds] by simp
  then show "(rest, c # cs) \<in> measure length"
    using length_dropWhile_le [of name_char cs] by simp
next
  fix c :: char and cs
  show "(cs, c # cs) \<in> measure length" by simp
qed

definition compile_format :: "string \<Rightarrow> piece list option" where
  "compile_format format = (if list_all plain_char format then Some (scan_format format) else None)"

text \<open>
  A token yields a text or nothing (undefined); nothing, and the empty text, are written
  as a hyphen. \<open>tokens name arg\<close> is what the token \<open>name\<close> yields, given the argument, for
  the request and response at hand.
\<close>

definition token_value :: "(string \<Rightarrow> string option \<Rightarrow> string option) \<Rightarrow> string \<Rightarrow> string option \<Rightarrow> string" where
  "token_value tokens name arg =
     (case tokens name arg of None \<Rightarrow> ''-'' | Some v \<Rightarrow> if v = [] then ''-'' else v)"

fun render_piece :: "(string \<Rightarrow> string option \<Rightarrow> string option) \<Rightarrow> piece \<Rightarrow> string" where
  "render_piece tokens (Text c) = [c]"
| "render_piece tokens (Token name arg) = token_value tokens name arg"

definition morgan_line :: "string \<Rightarrow> (string \<Rightarrow> string option \<Rightarrow> string option) \<Rightarrow> string option" where
  "morgan_line format tokens =
     (case compile_format format of
        None \<Rightarrow> None
      | Some pieces \<Rightarrow> Some (concat (map (render_piece tokens) pieces)))"

text \<open>
  What the logger sees of a request and its response when it writes the line (it writes
  when the response has ended): the request method, the URL the request came with (path
  and query string), and the status code of the response as text, if the response
  headers were sent. The three tokens of line 60 are the library's own and yield these;
  any other token is the parameter \<open>others\<close>.
\<close>

record exchange =
  req_method :: string
  req_originalUrl :: string
  res_status :: "string option"

definition exchange_tokens ::
  "(string \<Rightarrow> string option \<Rightarrow> string option) \<Rightarrow> exchange \<Rightarrow> string \<Rightarrow> string option \<Rightarrow> string option" where
  "exchange_tokens others ex name arg =
     (if name = ''method'' then Some (req_method ex)
      else if name = ''url'' then Some (req_originalUrl ex)
      else if name = ''status'' then res_status ex
      else others name arg)"

text \<open>The path of a request: its URL up to the query string.\<close>

definition request_path :: "exchange \<Rightarrow> string" where
  "request_path ex = takeWhile (\<lambda>c. c \<noteq> CHR ''?'') (req_originalUrl ex)"

text \<open>
  How Express takes a request through the stack. A layer is tried when its path matches
  (a layer without a path matches every request; for a layer with one, \<open>mounted\<close> says
  whether the request falls under it). While no error is pending only the ordinary
  handlers are called; once a handler has passed an error on, only the error handlers
  are (the exception filter is the one error handler of this class). \<open>does i\<close> is what
  the handler of the \<open>i\<close>-th layer does with this request when called: it passes the
  request on, passes an error on, or does neither (it answers, or leaves the request
  hanging). The result is the handlers called, in order.
\<close>

datatype step = Next | NextError | Ended

fun is_error_handler :: "handler \<Rightarrow> bool" where
  "is_error_handler ExceptionFilterCatch = True"
| "is_error_handler h = False"

fun dispatch ::
  "(nat \<Rightarrow> step) \<Rightarrow> (string \<Rightarrow> bool) \<Rightarrow> bool \<Rightarrow> nat \<Rightarrow> layer list \<Rightarrow> handler list" where
  "dispatch does mounted failed i [] = []"
| "dispatch does mounted failed i (Layer pth h # ls) =
     (if (case pth of None \<Rightarrow> True | Some prefix \<Rightarrow> mounted prefix) \<and> is_error_handler h = failed
      then h # (case does i of
                  Next \<Rightarrow> dispatch does mounted False (Suc i) ls
                | NextError \<Rightarrow> dispatch does mounted True (Suc i) ls
                | Ended \<Rightarrow> [])
      else dispatch does mounted failed (Suc i) ls)"

text \<open>The lines the access loggers among the called handlers write for the exchange.\<close>

fun logger_lines ::
  "(string \<Rightarrow> string option \<Rightarrow> string option) \<Rightarrow> handler list \<Rightarrow> string option list" where
  "logger_lines tokens [] = []"
| "logger_lines tokens (Morgan format # hs) = morgan_line format tokens # logger_lines tokens hs"
| "logger_lines tokens (h # hs) = logger_lines tokens hs"

definition access_log ::
  "(nat \<Rightarrow> step) \<Rightarrow> (string \<Rightarrow> bool) \<Rightarrow> (string \<Rightarrow> string option \<Rightarrow> string option) \<Rightarrow> exchange \<Rightarrow>
   layer list \<Rightarrow> string option list" where
  "access_log does mounted others ex stack =
     logger_lines (exchange_tokens others ex) (dispatch does mounted False 0 stack)"

subsection \<open>Reading a trace\<close>

text \<open>What an instrumented fake would report: the formats of the access loggers in a
  stack, the ports given to \<^verbatim>\<open>listen\<close>, the sections read from the configuration, the
  messages sent to the logger's \<^verbatim>\<open>info\<close> and the codes given to \<^verbatim>\<open>process.exit\<close>.\<close>

fun access_log_formats :: "layer list \<Rightarrow> string list" where
  "access_log_formats [] = []"
| "access_log_formats (Layer pth (Morgan f) # ls) = f # access_log_formats ls"
| "access_log_formats (l # ls) = access_log_formats ls"

fun listen_ports :: "event list \<Rightarrow> int list" where
  "listen_ports [] = []"
| "listen_ports (AppListen prt cb # evs) = prt # listen_ports evs"
| "listen_ports (ev # evs) = listen_ports evs"

fun config_reads :: "event list \<Rightarrow> string list" where
  "config_reads [] = []"
| "config_reads (ConfigGet section # evs) = section # config_reads evs"
| "config_reads (ev # evs) = config_reads evs"

fun info_messages :: "event list \<Rightarrow> (string \<times> string) list" where
  "info_messages [] = []"
| "info_messages (LoggerInfo category message # evs) = (category, message) # info_messages evs"
| "info_messages (ev # evs) = info_messages evs"

fun exit_codes :: "event list \<Rightarrow> int list" where
  "exit_codes [] = []"
| "exit_codes (ProcessExit code # evs) = code # exit_codes evs"
| "exit_codes (ev # evs) = exit_codes evs"

section \<open>What one call of \<^verbatim>\<open>init\<close> does\<close>

lemma useMiddleware_steps:
  "useMiddleware a p =
     (a\<lparr>app := app a @ [Layer None Helmet, Layer None (BodyParserUrlencoded True),
                         Layer None BodyParserJson, Layer None (Morgan '':method :url :status'')]\<rparr>,
      p\<lparr>trace := trace p @ [AppUse (Layer None Helmet), AppUse (Layer None (BodyParserUrlencoded True)),
                             AppUse (Layer None BodyParserJson),
                             AppUse (Layer None (Morgan '':method :url :status''))]\<rparr>)"
  by (simp add: useMiddleware_def app_use_def record_call_def)

lemma init_Fulfilled:
  "init Fulfilled a p =
     (if valid_port (port a) then Fulfilled else Rejected (ERR_SOCKET_BAD_PORT (port a)),
      a\<lparr>app := app a @ [Layer None Helmet, Layer None (BodyParserUrlencoded True),
                         Layer None BodyParserJson, Layer None (Morgan '':method :url :status''),
                         Layer (Some ''/users'') UserControllerRouter,
                         Layer None ExceptionFilterCatch]\<rparr>,
      p\<lparr>trace := trace p @ [AppUse (Layer None Helmet), AppUse (Layer None (BodyParserUrlencoded True)),
                             AppUse (Layer None BodyParserJson),
                             AppUse (Layer None (Morgan '':method :url :status'')),
                             AppUse (Layer (Some ''/users'') UserControllerRouter),
                             AppUse (Layer None ExceptionFilterCatch),
                             StorageConnect, ProcessOn ''SIGINT'' StorageShutdown,
                             AppListen (port a) (LogStarted (port a))],
        listeners := listeners p @ [(''SIGINT'', StorageShutdown)],
        servers := servers p @ (if valid_port (port a) then [(port a, LogStarted (port a))] else [])\<rparr>)"
  by (simp add: init_def useMiddleware_steps useRoutes_def useExceptionFilters_def app_use_def
      useDatabase_def process_on_def listen_def app_listen_def record_call_def)

lemma init_Rejected:
  "init (Rejected e) a p =
     (Rejected e,
      a\<lparr>app := app a @ [Layer None Helmet, Layer None (BodyParserUrlencoded True),
                         Layer None BodyParserJson, Layer None (Morgan '':method :url :status''),
                         Layer (Some ''/users'') UserControllerRouter,
                         Layer None ExceptionFilterCatch]\<rparr>,
      p\<lparr>trace := trace p @ [AppUse (Layer None Helmet), AppUse (Layer None (BodyParserUrlencoded True)),
                             AppUse (Layer None BodyParserJson),
                             AppUse (Layer None (Morgan '':method :url :status'')),
                             AppUse (Layer (Some ''/users'') UserControllerRouter),
                             AppUse (Layer None ExceptionFilterCatch),
                             StorageConnect]\<rparr>)"
  by (simp add: init_def useMiddleware_steps useRoutes_def useExceptionFilters_def app_use_def
      useDatabase_def record_call_def)

lemma init_Pending:
  "init Pending a p =
     (Pending,
      a\<lparr>app := app a @ [Layer None Helmet, Layer None (BodyParserUrlencoded True),
                         Layer None BodyParserJson, Layer None (Morgan '':method :url :status''),
                         Layer (Some ''/users'') UserControllerRouter,
                         Layer None ExceptionFilterCatch]\<rparr>,
      p\<lparr>trace := trace p @ [AppUse (Layer None Helmet), AppUse (Layer None (BodyParserUrlencoded True)),
                             AppUse (Layer None BodyParserJson),
                             AppUse (Layer None (Morgan '':method :url :status'')),
                             AppUse (Layer (Some ''/users'') UserControllerRouter),
                             AppUse (Layer None ExceptionFilterCatch),
                             StorageConnect]\<rparr>)"
  by (simp add: init_def useMiddleware_steps useRoutes_def useExceptionFilters_def app_use_def
      useDatabase_def record_call_def)

lemmas init_cases = init_Fulfilled init_Rejected init_Pending

lemma init_stack:
  "app (fst (snd (init connected a p))) =
     app a @
     [Layer None Helmet, Layer None (BodyParserUrlencoded True), Layer None BodyParserJson,
      Layer None (Morgan '':method :url :status''), Layer (Some ''/users'') UserControllerRouter,
      Layer None ExceptionFilterCatch]"
  by (cases connected) (simp_all add: init_cases)

text \<open>\<^verbatim>\<open>init\<close> is fulfilled exactly when \<^verbatim>\<open>connect\<close> is and the port is one Node accepts.\<close>

lemma init_fulfilled_iff:
  "fst (init connected a p) = Fulfilled \<longleftrightarrow> connected = Fulfilled \<and> valid_port (port a)"
  by (cases connected) (simp_all add: init_cases)

lemma init_fulfilled_state:
  assumes "fst (init connected a p) = Fulfilled"
  shows "snd (snd (init connected a p)) =
     p\<lparr>trace := trace p @ [AppUse (Layer None Helmet), AppUse (Layer None (BodyParserUrlencoded True)),
                            AppUse (Layer None BodyParserJson),
                            AppUse (Layer None (Morgan '':method :url :status'')),
                            AppUse (Layer (Some ''/users'') UserControllerRouter),
                            AppUse (Layer None ExceptionFilterCatch),
                            StorageConnect, ProcessOn ''SIGINT'' StorageShutdown,
                            AppListen (port a) (LogStarted (port a))],
       listeners := listeners p @ [(''SIGINT'', StorageShutdown)],
       servers := servers p @ [(port a, LogStarted (port a))]\<rparr>"
  using assms by (simp add: init_fulfilled_iff init_Fulfilled)

lemma listen_ports_append: "listen_ports (xs @ ys) = listen_ports xs @ listen_ports ys"
  by (induction xs rule: listen_ports.induct) simp_all

lemma config_reads_append: "config_reads (xs @ ys) = config_reads xs @ config_reads ys"
  by (induction xs rule: config_reads.induct) simp_all

lemma info_messages_append: "info_messages (xs @ ys) = info_messages xs @ info_messages ys"
  by (induction xs rule: info_messages.induct) simp_all

lemma exit_codes_append: "exit_codes (xs @ ys) = exit_codes xs @ exit_codes ys"
  by (induction xs rule: exit_codes.induct) simp_all

lemma access_log_formats_append:
  "access_log_formats (xs @ ys) = access_log_formats xs @ access_log_formats ys"
  by (induction xs rule: access_log_formats.induct) simp_all

section \<open>Decimal numerals\<close>

lemma digit_char_cases:
  assumes "d < 10"
  shows "digit_char d \<in> set ''0123456789''" and "digit_value (digit_char d) = d"
    and "digit_char d = CHR ''0'' \<longleftrightarrow> d = 0"
proof -
  from assms have "d = 0 \<or> d = 1 \<or> d = 2 \<or> d = 3 \<or> d = 4 \<or> d = 5 \<or> d = 6 \<or> d = 7 \<or> d = 8 \<or> d = 9"
    by arith
  then show "digit_char d \<in> set ''0123456789''" and "digit_value (digit_char d) = d"
    and "digit_char d = CHR ''0'' \<longleftrightarrow> d = 0"
    by (auto simp: digit_char_def digit_value_def)
qed

lemma decimal_value_snoc: "decimal_value (s @ [c]) = 10 * decimal_value s + digit_value c"
  by (simp add: decimal_value_def)

lemma decimal_not_empty: "decimal n \<noteq> []"
  by (subst decimal.simps) simp

lemma decimal_digits: "list_all (\<lambda>c. c \<in> set ''0123456789'') (decimal n)"
proof (induction n rule: decimal.induct)
  case (1 n)
  show ?case
  proof (cases "n < 10")
    case True
    then show ?thesis
      using digit_char_cases(1) [of n] by (subst decimal.simps) simp
  next
    case False
    then show ?thesis
      using "1" digit_char_cases(1) [of "n mod 10"] by (subst decimal.simps) simp
  qed
qed

lemma decimal_value_decimal: "decimal_value (decimal n) = n"
proof (induction n rule: decimal.induct)
  case (1 n)
  show ?case
  proof (cases "n < 10")
    case True
    then show ?thesis
      using digit_char_cases(2) [of n] by (subst decimal.simps) (simp add: decimal_value_def)
  next
    case False
    then show ?thesis
      using "1" digit_char_cases(2) [of "n mod 10"]
      by (subst decimal.simps) (simp add: decimal_value_snoc)
  qed
qed

lemma decimal_leading_zero: "hd (decimal n) = CHR ''0'' \<Longrightarrow> n = 0"
proof (induction n rule: decimal.induct)
  case (1 n)
  show ?case
  proof (cases "n < 10")
    case True
    then show ?thesis
      using "1.prems" digit_char_cases(3) [of n] by (subst (asm) decimal.simps) simp
  next
    case False
    then have "hd (decimal (n div 10)) = CHR ''0''"
      using "1.prems" by (subst (asm) decimal.simps) (simp add: decimal_not_empty)
    then have "n div 10 = 0"
      using "1.IH" False by simp
    then show ?thesis
      using False by simp
  qed
qed

lemma decimal_zero: "decimal 0 = ''0''"
  by (subst decimal.simps) (simp add: digit_char_def)

lemma decimal_is_numeral: "is_decimal_numeral (decimal n) n"
proof -
  have "hd (decimal n) = CHR ''0'' \<Longrightarrow> decimal n = ''0''"
    using decimal_leading_zero [of n] decimal_zero by simp
  then show ?thesis
    unfolding is_decimal_numeral_def
    using decimal_not_empty [of n] decimal_digits [of n] decimal_value_decimal [of n] by simp
qed

lemma number_to_string_port:
  "valid_port prt \<Longrightarrow> number_to_string prt = Some (decimal (nat prt))"
  by (simp add: valid_port_def number_to_string_def)

section \<open>The host events after a successful \<^verbatim>\<open>init\<close>\<close>

lemma can_bind_updates:
  "can_bind requested bound (p\<lparr>trace := t\<rparr>) = can_bind requested bound p"
  "can_bind requested bound (p\<lparr>listeners := l\<rparr>) = can_bind requested bound p"
  "can_bind requested bound (p\<lparr>servers := s\<rparr>) = can_bind requested bound p"
  by (simp_all add: can_bind_def)

lemma emit_listening_after_init:
  assumes "status p = Running" and "servers p = []" and "fst (init connected a p) = Fulfilled"
  shows "emit_listening bound (snd (snd (init connected a p))) =
     (if can_bind (port a) bound p
      then Some ((snd (snd (init connected a p)))
                   \<lparr>trace := trace (snd (snd (init connected a p))) @
                      [LoggerInfo ''app'' (''Server started listening on port '' @ decimal (nat (port a)))],
                    servers := [], listening := listening p @ [bound]\<rparr>)
      else None)"
proof -
  have "valid_port (port a)"
    using assms(3) by (simp add: init_fulfilled_iff)
  then have digits: "number_to_string (port a) = Some (decimal (nat (port a)))"
    by (rule number_to_string_port)
  show ?thesis
    unfolding init_fulfilled_state [OF assms(3)]
    using assms(1,2) digits
    by (simp add: emit_listening_def can_bind_updates record_call_def)
qed

text \<open>A server starting to listen leaves the listeners and the status as they are.\<close>

lemma emit_listening_keeps:
  assumes "emit_listening bound p = Some q"
  shows "listeners q = listeners p" and "status q = Running" and "status p = Running"
proof -
  from assms obtain requested prt rest digits where
    p: "status p = Running" "servers p = (requested, LogStarted prt) # rest"
       "number_to_string prt = Some digits"
    and q: "q = record_call (LoggerInfo ''app'' (''Server started listening on port '' @ digits))
                  (p\<lparr>servers := rest, listening := listening p @ [bound]\<rparr>)"
    by (cases "servers p"; cases "snd (hd (servers p))")
       (auto simp: emit_listening_def split: if_splits option.splits)
  from p q show "listeners q = listeners p" and "status q = Running" and "status p = Running"
    by (simp_all add: record_call_def)
qed

text \<open>SIGINT with exactly the handler of this class registered.\<close>

lemma emit_sigint_single:
  assumes "status p = Running" and "sigint_listeners p = [StorageShutdown]"
  shows "emit_sigint disconnected p =
    (case disconnected 0 of
       Fulfilled \<Rightarrow>
         ([Pending], p\<lparr>trace := trace p @ [StorageDisconnect, ProcessExit 0], status := Exited 0\<rparr>)
     | Rejected e \<Rightarrow> ([Rejected e], p\<lparr>trace := trace p @ [StorageDisconnect], status := Exited 1\<rparr>)
     | Pending \<Rightarrow> ([Pending], p\<lparr>trace := trace p @ [StorageDisconnect]\<rparr>))"
  using assms
  by (cases "disconnected 0")
     (simp_all add: emit_sigint_def record_call_def process_exit_def)

text \<open>After a fulfilled \<^verbatim>\<open>init\<close>, before or after its server has started to listen.\<close>

lemma started_state:
  assumes "status p = Running" and "sigint_listeners p = []"
    and "fst (init connected a p) = Fulfilled"
    and "q = snd (snd (init connected a p)) \<or>
         emit_listening bound (snd (snd (init connected a p))) = Some q"
  shows "status q = Running" and "sigint_listeners q = [StorageShutdown]"
proof -
  have s0: "status (snd (snd (init connected a p))) = Running"
    using assms(1) by (simp add: init_fulfilled_state [OF assms(3)])
  have l0: "sigint_listeners (snd (snd (init connected a p))) = [StorageShutdown]"
    using assms(2) by (simp add: init_fulfilled_state [OF assms(3)] sigint_listeners_def)
  from assms(4) show "status q = Running"
    using s0 emit_listening_keeps(2) by blast
  from assms(4) show "sigint_listeners q = [StorageShutdown]"
    using l0 emit_listening_keeps(1) by (auto simp: sigint_listeners_def)
qed

section \<open>A concrete run\<close>

text \<open>
  A fresh process, an instance with port 4000, \<^verbatim>\<open>connect\<close> fulfilled, and the server
  starting to listen on 4000.
\<close>

lemma decimal_4000: "decimal 4000 = ''4000''"
  by (simp add: decimal.simps digit_char_def)

lemma run_4000_init:
  "init (Fulfilled :: string error outcome) \<lparr>app = [], port = 4000\<rparr> boot =
     (Fulfilled,
      \<lparr>app = [Layer None Helmet, Layer None (BodyParserUrlencoded True), Layer None BodyParserJson,
              Layer None (Morgan '':method :url :status''),
              Layer (Some ''/users'') UserControllerRouter, Layer None ExceptionFilterCatch],
       port = 4000\<rparr>,
      \<lparr>trace =
         [AppUse (Layer None Helmet), AppUse (Layer None (BodyParserUrlencoded True)),
          AppUse (Layer None BodyParserJson), AppUse (Layer None (Morgan '':method :url :status'')),
          AppUse (Layer (Some ''/users'') UserControllerRouter),
          AppUse (Layer None ExceptionFilterCatch),
          StorageConnect, ProcessOn ''SIGINT'' StorageShutdown, AppListen 4000 (LogStarted 4000)],
       listeners = [(''SIGINT'', StorageShutdown)],
       servers = [(4000, LogStarted 4000)],
       listening = [],
       status = Running\<rparr>)"
  by (simp add: init_Fulfilled boot_def valid_port_def)

lemma run_4000_listening:
  "emit_listening 4000
     (snd (snd (init (Fulfilled :: string error outcome) \<lparr>app = [], port = 4000\<rparr> boot))) =
   Some
     \<lparr>trace =
        [AppUse (Layer None Helmet), AppUse (Layer None (BodyParserUrlencoded True)),
         AppUse (Layer None BodyParserJson), AppUse (Layer None (Morgan '':method :url :status'')),
         AppUse (Layer (Some ''/users'') UserControllerRouter),
         AppUse (Layer None ExceptionFilterCatch),
         StorageConnect, ProcessOn ''SIGINT'' StorageShutdown, AppListen 4000 (LogStarted 4000),
         LoggerInfo ''app'' ''Server started listening on port 4000''],
      listeners = [(''SIGINT'', StorageShutdown)],
      servers = [],
      listening = [4000],
      status = Running\<rparr>"
  by (simp add: run_4000_init emit_listening_def can_bind_def number_to_string_def decimal_4000
      record_call_def)

section \<open>Startup order\<close>

text \<open>
  C1. Whatever the storage does, \<^verbatim>\<open>init\<close> makes its collaborator calls in one order: the
  four baseline middleware, the user routes under \<^verbatim>\<open>/users\<close>, the exception filter, then
  the call of \<^verbatim>\<open>connect\<close>. Only when the awaited promise is fulfilled do the SIGINT
  registration and the \<^verbatim>\<open>listen\<close> call follow, in that order; when it is rejected or
  never settles, no \<^verbatim>\<open>listen\<close> call is made.
\<close>

theorem init_registration_order:
  "trace (snd (snd (init connected a p))) =
     trace p @
     [AppUse (Layer None Helmet), AppUse (Layer None (BodyParserUrlencoded True)),
      AppUse (Layer None BodyParserJson), AppUse (Layer None (Morgan '':method :url :status'')),
      AppUse (Layer (Some ''/users'') UserControllerRouter),
      AppUse (Layer None ExceptionFilterCatch),
      StorageConnect] @
     (case connected of
        Fulfilled \<Rightarrow> [ProcessOn ''SIGINT'' StorageShutdown, AppListen (port a) (LogStarted (port a))]
      | Rejected e \<Rightarrow> []
      | Pending \<Rightarrow> [])"
  by (cases connected) (simp_all add: init_cases)

text \<open>
  C2. When \<^verbatim>\<open>connect\<close> rejects with reason \<open>e\<close>, the promise of \<^verbatim>\<open>init\<close> rejects with the
  same \<open>e\<close>. The calls made are the six registrations and one \<^verbatim>\<open>connect\<close> (no second
  attempt); no \<^verbatim>\<open>listen\<close> call is added to the trace, no server is waiting to announce
  itself, and the process goes on running.
\<close>

theorem init_connect_rejected:
  "fst (init (Rejected e) a p) = Rejected e \<and>
   trace (snd (snd (init (Rejected e) a p))) =
     trace p @
     [AppUse (Layer None Helmet), AppUse (Layer None (BodyParserUrlencoded True)),
      AppUse (Layer None BodyParserJson), AppUse (Layer None (Morgan '':method :url :status'')),
      AppUse (Layer (Some ''/users'') UserControllerRouter),
      AppUse (Layer None ExceptionFilterCatch),
      StorageConnect] \<and>
   listen_ports (trace (snd (snd (init (Rejected e) a p)))) = listen_ports (trace p) \<and>
   servers (snd (snd (init (Rejected e) a p))) = servers p \<and>
   status (snd (snd (init (Rejected e) a p))) = status p"
  by (simp add: init_Rejected listen_ports_append)

section \<open>Shutdown on SIGINT\<close>

text \<open>
  C3. Take a running process with no earlier SIGINT listener and an \<^verbatim>\<open>init\<close> that was
  fulfilled, and let a SIGINT arrive afterwards, before or after the server has started
  to listen. The handler makes exactly one \<^verbatim>\<open>disconnect\<close> call. When that promise is
  fulfilled, \<^verbatim>\<open>process.exit(0)\<close> follows it and the process has exited with code 0, and
  nothing else has changed: no draining, no cancellation. When the promise never settles,
  nothing follows the \<^verbatim>\<open>disconnect\<close> call. When it is rejected, no \<^verbatim>\<open>process.exit\<close> call
  is made; the rejection is unhandled and Node ends the process with code 1.
\<close>

theorem sigint_disconnects_then_exits:
  assumes "status p = Running" and "sigint_listeners p = []"
    and "fst (init connected a p) = Fulfilled"
    and "q = snd (snd (init connected a p)) \<or>
         emit_listening bound (snd (snd (init connected a p))) = Some q"
  shows "emit_sigint disconnected q =
    (case disconnected 0 of
       Fulfilled \<Rightarrow>
         ([Pending], q\<lparr>trace := trace q @ [StorageDisconnect, ProcessExit 0], status := Exited 0\<rparr>)
     | Rejected e \<Rightarrow> ([Rejected e], q\<lparr>trace := trace q @ [StorageDisconnect], status := Exited 1\<rparr>)
     | Pending \<Rightarrow> ([Pending], q\<lparr>trace := trace q @ [StorageDisconnect]\<rparr>))"
  using started_state [OF assms] by (rule emit_sigint_single)

theorem sigint_disconnects_then_exits_witness:
  "status boot = Running \<and> sigint_listeners boot = [] \<and>
   fst (init (Fulfilled :: string error outcome) \<lparr>app = [], port = 4000\<rparr> boot) = Fulfilled \<and>
   emit_sigint (\<lambda>i. Fulfilled :: string outcome)
     \<lparr>trace =
        [AppUse (Layer None Helmet), AppUse (Layer None (BodyParserUrlencoded True)),
         AppUse (Layer None BodyParserJson), AppUse (Layer None (Morgan '':method :url :status'')),
         AppUse (Layer (Some ''/users'') UserControllerRouter),
         AppUse (Layer None ExceptionFilterCatch),
         StorageConnect, ProcessOn ''SIGINT'' StorageShutdown, AppListen 4000 (LogStarted 4000),
         LoggerInfo ''app'' ''Server started listening on port 4000''],
      listeners = [(''SIGINT'', StorageShutdown)],
      servers = [],
      listening = [4000],
      status = Running\<rparr> =
   ([Pending],
    \<lparr>trace =
        [AppUse (Layer None Helmet), AppUse (Layer None (BodyParserUrlencoded True)),
         AppUse (Layer None BodyParserJson), AppUse (Layer None (Morgan '':method :url :status'')),
         AppUse (Layer (Some ''/users'') UserControllerRouter),
         AppUse (Layer None ExceptionFilterCatch),
         StorageConnect, ProcessOn ''SIGINT'' StorageShutdown, AppListen 4000 (LogStarted 4000),
         LoggerInfo ''app'' ''Server started listening on port 4000'',
         StorageDisconnect, ProcessExit 0],
      listeners = [(''SIGINT'', StorageShutdown)],
      servers = [],
      listening = [4000],
      status = Exited 0\<rparr>)"
proof -
  have h1: "status boot = Running" by (simp add: boot_def)
  have h2: "sigint_listeners boot = []" by (simp add: boot_def sigint_listeners_def)
  have h3: "fst (init (Fulfilled :: string error outcome) \<lparr>app = [], port = 4000\<rparr> boot) = Fulfilled"
    by (simp add: run_4000_init)
  show ?thesis
    using h1 h2 h3
      sigint_disconnects_then_exits
        [OF h1 h2 h3 disjI2 [OF run_4000_listening], where disconnected = "\<lambda>i. Fulfilled :: string outcome"]
    by simp
qed

section \<open>The port\<close>

text \<open>
  C4. The constructor reads the section \<^verbatim>\<open>server\<close> of the configuration once and keeps its
  \<^verbatim>\<open>port\<close> field. \<^verbatim>\<open>init\<close> leaves the field of the instance as it is and reads no
  configuration, whatever the storage does, and the port it gives to \<^verbatim>\<open>listen\<close> is the
  field's value: for an instance fresh from the constructor, the configured port.
\<close>

theorem port_from_configuration:
  "port (fst (constructor configService p)) = TServerConfig.port (configService ''server'') \<and>
   config_reads (trace (snd (constructor configService p))) = config_reads (trace p) @ [''server''] \<and>
   port (fst (snd (init connected a q))) = port a \<and>
   config_reads (trace (snd (snd (init connected a q)))) = config_reads (trace q) \<and>
   listen_ports (trace (snd (snd (init connected a q)))) =
     listen_ports (trace q) @
     (case connected of Fulfilled \<Rightarrow> [port a] | Rejected e \<Rightarrow> [] | Pending \<Rightarrow> []) \<and>
   listen_ports
     (trace (snd (snd (init (Fulfilled :: 'e error outcome) (fst (constructor configService p))
                                      (snd (constructor configService p)))))) =
     listen_ports (trace p) @ [TServerConfig.port (configService ''server'')]"
  by (cases connected)
     (simp_all add: init_cases constructor_def record_call_def listen_ports_append config_reads_append)

section \<open>The middleware chain\<close>

text \<open>
  C5. \<^verbatim>\<open>useExceptionFilters\<close> puts the exception filter at the end of the stack: its index
  is the length the stack had when it was registered. In \<^verbatim>\<open>init\<close> that is after the four
  baseline middleware and the \<^verbatim>\<open>/users\<close> routes, so after \<^verbatim>\<open>init\<close> (whatever the storage
  does) the filter is the last layer, five places after the layers that were there before.
\<close>

theorem exception_filter_registered_last:
  "app (fst (useExceptionFilters a p)) = app a @ [Layer None ExceptionFilterCatch] \<and>
   app (fst (useExceptionFilters a p)) ! length (app a) = Layer None ExceptionFilterCatch \<and>
   app (fst (snd (init connected a p))) =
     app a @
     [Layer None Helmet, Layer None (BodyParserUrlencoded True), Layer None BodyParserJson,
      Layer None (Morgan '':method :url :status''), Layer (Some ''/users'') UserControllerRouter,
      Layer None ExceptionFilterCatch] \<and>
   last (app (fst (snd (init connected a p)))) = Layer None ExceptionFilterCatch \<and>
   app (fst (snd (init connected a p))) ! (length (app a) + 5) = Layer None ExceptionFilterCatch \<and>
   length (app (fst (snd (init connected a p)))) = length (app a) + 6"
  by (cases connected) (simp_all add: init_cases useExceptionFilters_def app_use_def nth_append)

section \<open>The access log\<close>

lemma morgan_line_format:
  "morgan_line '':method :url :status'' tokens =
     Some (token_value tokens ''method'' None @ '' '' @ token_value tokens ''url'' None @ '' '' @
           token_value tokens ''status'' None)"
  by (simp add: morgan_line_def compile_format_def plain_char_def name_char_def bracket_argument_def)

lemma exchange_line:
  "morgan_line '':method :url :status'' (exchange_tokens others ex) =
     Some ((if req_method ex = [] then ''-'' else req_method ex) @ '' '' @
           (if req_originalUrl ex = [] then ''-'' else req_originalUrl ex) @ '' '' @
           (case res_status ex of None \<Rightarrow> ''-'' | Some s \<Rightarrow> if s = [] then ''-'' else s))"
  by (simp add: morgan_line_format token_value_def exchange_tokens_def split: option.splits)

text \<open>
  What a request meets in the stack of a fresh instance after \<^verbatim>\<open>init\<close>: the logger is
  called when, and only when, helmet and the two body parsers have each passed the
  request on.
\<close>

lemma fresh_stack_log:
  "logger_lines tokens
     (dispatch does mounted False 0
        [Layer None Helmet, Layer None (BodyParserUrlencoded True), Layer None BodyParserJson,
         Layer None (Morgan '':method :url :status''), Layer (Some ''/users'') UserControllerRouter,
         Layer None ExceptionFilterCatch]) =
   (if does 0 = Next \<and> does 1 = Next \<and> does 2 = Next
    then [morgan_line '':method :url :status'' tokens] else [])"
proof -
  have tail: "logger_lines tokens hs = []"
    if "hs = dispatch does mounted failed 4 [Layer (Some ''/users'') UserControllerRouter,
                                             Layer None ExceptionFilterCatch]"
    for hs failed
    using that
    by (cases failed; cases "mounted ''/users''"; cases "does 4"; cases "does 5")
       (simp_all add: numeral_eq_Suc)
  have filter_only: "logger_lines tokens
      (dispatch does mounted True i
         [Layer None (Morgan '':method :url :status''), Layer (Some ''/users'') UserControllerRouter,
          Layer None ExceptionFilterCatch]) = []" for i
    by (cases "does (Suc (Suc i))") simp_all
  have from_morgan: "logger_lines tokens
      (dispatch does mounted False 3
         [Layer None (Morgan '':method :url :status''), Layer (Some ''/users'') UserControllerRouter,
          Layer None ExceptionFilterCatch]) = [morgan_line '':method :url :status'' tokens]"
    using tail [OF refl, of False] tail [OF refl, of True]
    by (cases "does 3") (simp_all add: numeral_eq_Suc)
  have failed2: "logger_lines tokens
      (dispatch does mounted True 2
         [Layer None BodyParserJson, Layer None (Morgan '':method :url :status''),
          Layer (Some ''/users'') UserControllerRouter, Layer None ExceptionFilterCatch]) = []"
    using filter_only [of 3] by (simp add: numeral_eq_Suc)
  have failed1: "logger_lines tokens
      (dispatch does mounted True 1
         [Layer None (BodyParserUrlencoded True), Layer None BodyParserJson,
          Layer None (Morgan '':method :url :status''),
          Layer (Some ''/users'') UserControllerRouter, Layer None ExceptionFilterCatch]) = []"
    using failed2 by (simp add: numeral_eq_Suc)
  have from2: "logger_lines tokens
      (dispatch does mounted False 2
         [Layer None BodyParserJson, Layer None (Morgan '':method :url :status''),
          Layer (Some ''/users'') UserControllerRouter, Layer None ExceptionFilterCatch]) =
      (if does 2 = Next then [morgan_line '':method :url :status'' tokens] else [])"
    using from_morgan filter_only [of 3] by (cases "does 2") (simp_all add: numeral_eq_Suc)
  have from1: "logger_lines tokens
      (dispatch does mounted False 1
         [Layer None (BodyParserUrlencoded True), Layer None BodyParserJson,
          Layer None (Morgan '':method :url :status''),
          Layer (Some ''/users'') UserControllerRouter, Layer None ExceptionFilterCatch]) =
      (if does 1 = Next \<and> does 2 = Next then [morgan_line '':method :url :status'' tokens] else [])"
    using from2 failed2 by (cases "does 1") (simp_all add: numeral_eq_Suc)
  show ?thesis
    using from1 failed1 by (cases "does 0") simp_all
qed

text \<open>
  C6, as the code has it. \<^verbatim>\<open>init\<close> registers one access logger, with the format
  \<^verbatim>\<open>:method :url :status\<close>, as the fourth layer: behind helmet and the two body parsers,
  before the routes and the exception filter. In the stack of a fresh instance the logger
  writes a line for a request exactly when those three earlier layers have each passed
  the request on, and none when one of them answers the request or fails on it (a body
  that does not parse). The line is the request method, a space, the URL of the request
  with its query string, a space, and the status code of the response; a part that is
  missing or empty is written as a hyphen.
\<close>

theorem access_log_format:
  "app (fst (snd (init connected a p))) =
     app a @
     [Layer None Helmet, Layer None (BodyParserUrlencoded True), Layer None BodyParserJson,
      Layer None (Morgan '':method :url :status''), Layer (Some ''/users'') UserControllerRouter,
      Layer None ExceptionFilterCatch] \<and>
   access_log_formats (app (fst (snd (init connected a p)))) =
     access_log_formats (app a) @ ['':method :url :status''] \<and>
   compile_format '':method :url :status'' =
     Some [Token ''method'' None, Text CHR '' '', Token ''url'' None, Text CHR '' '',
           Token ''status'' None] \<and>
   access_log does mounted others ex
     (app (fst (snd (init connected (fst (constructor configService p0)) p)))) =
     (if does 0 = Next \<and> does 1 = Next \<and> does 2 = Next
      then [Some ((if req_method ex = [] then ''-'' else req_method ex) @ '' '' @
                  (if req_originalUrl ex = [] then ''-'' else req_originalUrl ex) @ '' '' @
                  (case res_status ex of None \<Rightarrow> ''-'' | Some s \<Rightarrow> if s = [] then ''-'' else s))]
      else [])"
proof -
  have "compile_format '':method :url :status'' =
     Some [Token ''method'' None, Text CHR '' '', Token ''url'' None, Text CHR '' '',
           Token ''status'' None]"
    by (simp add: compile_format_def plain_char_def name_char_def bracket_argument_def)
  moreover have "access_log does mounted others ex
     (app (fst (snd (init connected (fst (constructor configService p0)) p)))) =
     (if does 0 = Next \<and> does 1 = Next \<and> does 2 = Next
      then [Some ((if req_method ex = [] then ''-'' else req_method ex) @ '' '' @
                  (if req_originalUrl ex = [] then ''-'' else req_originalUrl ex) @ '' '' @
                  (case res_status ex of None \<Rightarrow> ''-'' | Some s \<Rightarrow> if s = [] then ''-'' else s))]
      else [])"
    unfolding access_log_def init_stack
    by (simp only: constructor_def fst_conv App.simps append_Nil fresh_stack_log exchange_line)
  ultimately show ?thesis
    by (simp add: init_stack access_log_formats_append)
qed

text \<open>
  C6 as the claim has it (every request logged, as method, path and status) fails twice
  on the stack of a fresh instance. A POST to \<^verbatim>\<open>/users\<close> on which the JSON body parser
  fails is not logged at all. A GET of \<^verbatim>\<open>/users?id=1\<close> answered with 200 is logged with
  its query string, which is not its path \<^verbatim>\<open>/users\<close>.
\<close>

theorem access_log_counterexample:
  "access_log (\<lambda>i. if i = 2 then NextError else Next) (\<lambda>prefix. True) (\<lambda>name arg. None)
     \<lparr>req_method = ''POST'', req_originalUrl = ''/users'', res_status = Some ''400''\<rparr>
     (app (fst (snd (init (Fulfilled :: string error outcome)
                       (fst (constructor (\<lambda>section. \<lparr>TServerConfig.port = 4000\<rparr>) boot)) boot)))) = [] \<and>
   access_log (\<lambda>i. if i = 4 then Ended else Next) (\<lambda>prefix. True) (\<lambda>name arg. None)
     \<lparr>req_method = ''GET'', req_originalUrl = ''/users?id=1'', res_status = Some ''200''\<rparr>
     (app (fst (snd (init (Fulfilled :: string error outcome)
                       (fst (constructor (\<lambda>section. \<lparr>TServerConfig.port = 4000\<rparr>) boot)) boot)))) =
     [Some ''GET /users?id=1 200''] \<and>
   request_path \<lparr>req_method = ''GET'', req_originalUrl = ''/users?id=1'', res_status = Some ''200''\<rparr> =
     ''/users'' \<and>
   ''GET /users?id=1 200'' \<noteq> ''GET'' @ '' '' @ ''/users'' @ '' '' @ ''200''"
  unfolding access_log_def init_stack
  by (simp add: constructor_def fresh_stack_log exchange_line request_path_def)

section \<open>The start message\<close>

text \<open>
  C7 as the claim has it (the message reports the port the server is listening on) fails
  for the configured port 0: the operating system picks the port, here 49152, and the
  message still says port 0.
\<close>

theorem listening_message_counterexample:
  "emit_listening 49152
     (snd (snd (init (Fulfilled :: string error outcome) \<lparr>app = [], port = 0\<rparr> boot))) =
   Some
     \<lparr>trace =
        [AppUse (Layer None Helmet), AppUse (Layer None (BodyParserUrlencoded True)),
         AppUse (Layer None BodyParserJson), AppUse (Layer None (Morgan '':method :url :status'')),
         AppUse (Layer (Some ''/users'') UserControllerRouter),
         AppUse (Layer None ExceptionFilterCatch),
         StorageConnect, ProcessOn ''SIGINT'' StorageShutdown, AppListen 0 (LogStarted 0),
         LoggerInfo ''app'' ''Server started listening on port 0''],
      listeners = [(''SIGINT'', StorageShutdown)],
      servers = [],
      listening = [49152],
      status = Running\<rparr> \<and>
   ''Server started listening on port 0'' \<noteq> ''Server started listening on port 49152''"
  by (simp add: init_Fulfilled boot_def valid_port_def emit_listening_def can_bind_def
      number_to_string_def decimal_zero record_call_def)

text \<open>
  C7, as the code has it. Take a running process with no server waiting from before and an
  \<^verbatim>\<open>init\<close> that was fulfilled (so the port is one Node accepts, 0 to 65535). \<^verbatim>\<open>init\<close> itself
  sends nothing to the logger. When the server it started begins to listen, exactly one
  call of the logger's \<^verbatim>\<open>info\<close> is made, with the category \<^verbatim>\<open>app\<close> and the text
  \<^verbatim>\<open>Server started listening on port\<close> followed by the decimal numeral of the configured
  port. That is the port the server listens on unless the configured port is 0. The event
  is possible exactly for the ports the server can come to listen on.
\<close>

theorem listening_logged_once:
  assumes "status p = Running" and "servers p = []"
    and "fst (init connected a p) = Fulfilled"
    and "emit_listening bound (snd (snd (init connected a p))) = Some q"
  shows "info_messages (trace (snd (snd (init connected a p)))) = info_messages (trace p) \<and>
         trace q =
           trace (snd (snd (init connected a p))) @
           [LoggerInfo ''app'' (''Server started listening on port '' @ decimal (nat (port a)))] \<and>
         info_messages (trace q) =
           info_messages (trace p) @
           [(''app'', ''Server started listening on port '' @ decimal (nat (port a)))] \<and>
         is_decimal_numeral (decimal (nat (port a))) (nat (port a)) \<and>
         0 \<le> port a \<and> port a \<le> 65535 \<and>
         listening q = listening p @ [bound] \<and>
         (port a \<noteq> 0 \<longrightarrow> bound = port a) \<and>
         servers q = [] \<and>
         (emit_listening other (snd (snd (init connected a p))) \<noteq> None \<longleftrightarrow>
            can_bind (port a) other p)"
proof -
  have valid: "valid_port (port a)"
    using assms(3) by (simp add: init_fulfilled_iff)
  have bind: "can_bind (port a) bound p"
    using assms(4) by (simp add: emit_listening_after_init [OF assms(1-3)] split: if_splits)
  have q: "q = (snd (snd (init connected a p)))
                 \<lparr>trace := trace (snd (snd (init connected a p))) @
                    [LoggerInfo ''app'' (''Server started listening on port '' @ decimal (nat (port a)))],
                  servers := [], listening := listening p @ [bound]\<rparr>"
    using assms(4) bind by (simp add: emit_listening_after_init [OF assms(1-3)])
  have before: "info_messages (trace (snd (snd (init connected a p)))) = info_messages (trace p)"
    by (simp add: init_fulfilled_state [OF assms(3)] info_messages_append)
  have "info_messages (trace q) =
          info_messages (trace p) @
          [(''app'', ''Server started listening on port '' @ decimal (nat (port a)))]"
    by (subst q) (simp add: info_messages_append before)
  moreover have "port a \<noteq> 0 \<longrightarrow> bound = port a"
    using bind by (simp add: can_bind_def)
  moreover have "emit_listening other (snd (snd (init connected a p))) \<noteq> None \<longleftrightarrow>
                 can_bind (port a) other p"
    by (simp add: emit_listening_after_init [OF assms(1-3)])
  ultimately show ?thesis
    using valid before decimal_is_numeral [of "nat (port a)"]
    by (simp add: q valid_port_def)
qed

theorem listening_logged_once_witness:
  "status boot = Running \<and> servers boot = [] \<and>
   fst (init (Fulfilled :: string error outcome) \<lparr>app = [], port = 4000\<rparr> boot) = Fulfilled \<and>
   info_messages
     (trace (snd (snd (init (Fulfilled :: string error outcome) \<lparr>app = [], port = 4000\<rparr> boot)))) = [] \<and>
   info_messages
     (trace
        \<lparr>trace =
           [AppUse (Layer None Helmet), AppUse (Layer None (BodyParserUrlencoded True)),
            AppUse (Layer None BodyParserJson), AppUse (Layer None (Morgan '':method :url :status'')),
            AppUse (Layer (Some ''/users'') UserControllerRouter),
            AppUse (Layer None ExceptionFilterCatch),
            StorageConnect, ProcessOn ''SIGINT'' StorageShutdown, AppListen 4000 (LogStarted 4000),
            LoggerInfo ''app'' ''Server started listening on port 4000''],
         listeners = [(''SIGINT'', StorageShutdown)],
         servers = [],
         listening = [4000],
         status = Running\<rparr>) =
     [(''app'', ''Server started listening on port 4000'')] \<and>
   is_decimal_numeral ''4000'' 4000"
proof -
  have h1: "status boot = Running" by (simp add: boot_def)
  have h2: "servers boot = []" by (simp add: boot_def)
  have h3: "fst (init (Fulfilled :: string error outcome) \<lparr>app = [], port = 4000\<rparr> boot) = Fulfilled"
    by (simp add: run_4000_init)
  show ?thesis
    using h1 h2 h3 listening_logged_once [OF h1 h2 h3 run_4000_listening]
    by (simp add: decimal_4000 run_4000_init boot_def)
qed

section \<open>Calling \<^verbatim>\<open>init\<close> again\<close>

text \<open>
  C8. \<^verbatim>\<open>init\<close> has no guard against a second call. After an \<^verbatim>\<open>init\<close> whose \<^verbatim>\<open>connect\<close> was
  fulfilled (the call itself is fulfilled for a port Node accepts and rejected by
  \<^verbatim>\<open>listen\<close> otherwise), a second \<^verbatim>\<open>init\<close> on the same instance registers the six layers
  again behind the first six, calls \<^verbatim>\<open>connect\<close> again, and ends exactly as a first call
  with that outcome of \<^verbatim>\<open>connect\<close> ends; when \<^verbatim>\<open>connect\<close> is fulfilled again, a second
  SIGINT handler is registered and \<^verbatim>\<open>listen\<close> is called a second time with the same port.
  The state after the second call differs from the state after the first.
\<close>

theorem init_twice_repeats_every_step:
  "fst (init (Fulfilled :: 'e error outcome) a p) =
     (if valid_port (port a) then Fulfilled else Rejected (ERR_SOCKET_BAD_PORT (port a))) \<and>
   fst (init connected (fst (snd (init (Fulfilled :: 'e error outcome) a p)))
          (snd (snd (init (Fulfilled :: 'e error outcome) a p)))) = fst (init connected a p) \<and>
   app (fst (snd (init connected (fst (snd (init (Fulfilled :: 'e error outcome) a p)))
                    (snd (snd (init (Fulfilled :: 'e error outcome) a p)))))) =
     app (fst (snd (init (Fulfilled :: 'e error outcome) a p))) @
     [Layer None Helmet, Layer None (BodyParserUrlencoded True), Layer None BodyParserJson,
      Layer None (Morgan '':method :url :status''), Layer (Some ''/users'') UserControllerRouter,
      Layer None ExceptionFilterCatch] \<and>
   trace (snd (snd (init connected (fst (snd (init (Fulfilled :: 'e error outcome) a p)))
                      (snd (snd (init (Fulfilled :: 'e error outcome) a p)))))) =
     trace (snd (snd (init (Fulfilled :: 'e error outcome) a p))) @
     [AppUse (Layer None Helmet), AppUse (Layer None (BodyParserUrlencoded True)),
      AppUse (Layer None BodyParserJson), AppUse (Layer None (Morgan '':method :url :status'')),
      AppUse (Layer (Some ''/users'') UserControllerRouter),
      AppUse (Layer None ExceptionFilterCatch),
      StorageConnect] @
     (case connected of
        Fulfilled \<Rightarrow> [ProcessOn ''SIGINT'' StorageShutdown, AppListen (port a) (LogStarted (port a))]
      | Rejected e \<Rightarrow> []
      | Pending \<Rightarrow> []) \<and>
   listeners (snd (snd (init (Fulfilled :: 'e error outcome)
                          (fst (snd (init (Fulfilled :: 'e error outcome) a p)))
                          (snd (snd (init (Fulfilled :: 'e error outcome) a p)))))) =
     listeners p @ [(''SIGINT'', StorageShutdown), (''SIGINT'', StorageShutdown)] \<and>
   servers (snd (snd (init (Fulfilled :: 'e error outcome)
                        (fst (snd (init (Fulfilled :: 'e error outcome) a p)))
                        (snd (snd (init (Fulfilled :: 'e error outcome) a p)))))) =
     servers p @
     (if valid_port (port a) then [(port a, LogStarted (port a)), (port a, LogStarted (port a))] else []) \<and>
   snd (init connected (fst (snd (init (Fulfilled :: 'e error outcome) a p)))
          (snd (snd (init (Fulfilled :: 'e error outcome) a p)))) \<noteq>
     snd (init (Fulfilled :: 'e error outcome) a p)"
proof -
  have "app (fst (snd (init connected (fst (snd (init (Fulfilled :: 'e error outcome) a p)))
                         (snd (snd (init (Fulfilled :: 'e error outcome) a p)))))) \<noteq>
        app (fst (snd (init (Fulfilled :: 'e error outcome) a p)))"
    by (simp add: init_stack)
  then have "snd (init connected (fst (snd (init (Fulfilled :: 'e error outcome) a p)))
                    (snd (snd (init (Fulfilled :: 'e error outcome) a p)))) \<noteq>
             snd (init (Fulfilled :: 'e error outcome) a p)"
    by metis
  then show ?thesis
    by (cases connected) (simp_all add: init_cases)
qed

section \<open>Failures of the storage\<close>

text \<open>
  C9. When \<^verbatim>\<open>connect\<close> rejects, \<^verbatim>\<open>init\<close> leaves the listeners of the process as they were:
  the SIGINT handler is not registered. In a running process with no earlier SIGINT
  listener a later SIGINT therefore runs no code of this class: no \<^verbatim>\<open>disconnect\<close> call is
  made, the trace stays as it was, and the process ends by the signal's default action.
\<close>

theorem connect_rejected_registers_no_handler:
  assumes "status p = Running" and "sigint_listeners p = []"
  shows "listeners (snd (snd (init (Rejected e) a p))) = listeners p \<and>
         emit_sigint disconnected (snd (snd (init (Rejected e) a p))) =
           ([], (snd (snd (init (Rejected e) a p)))\<lparr>status := Killed ''SIGINT''\<rparr>) \<and>
         trace (snd (emit_sigint disconnected (snd (snd (init (Rejected e) a p))))) =
           trace (snd (snd (init (Rejected e) a p)))"
  using assms
  by (simp add: init_Rejected emit_sigint_def sigint_listeners_def)

theorem connect_rejected_registers_no_handler_witness:
  "status boot = Running \<and> sigint_listeners boot = [] \<and>
   listeners (snd (snd (init (Rejected (Thrown ''down'')) \<lparr>app = [], port = 4000\<rparr> boot))) = [] \<and>
   emit_sigint (\<lambda>i. Fulfilled :: string outcome)
     (snd (snd (init (Rejected (Thrown ''down'')) \<lparr>app = [], port = 4000\<rparr> boot))) =
     ([],
      \<lparr>trace =
         [AppUse (Layer None Helmet), AppUse (Layer None (BodyParserUrlencoded True)),
          AppUse (Layer None BodyParserJson), AppUse (Layer None (Morgan '':method :url :status'')),
          AppUse (Layer (Some ''/users'') UserControllerRouter),
          AppUse (Layer None ExceptionFilterCatch),
          StorageConnect],
       listeners = [], servers = [], listening = [], status = Killed ''SIGINT''\<rparr>)"
proof -
  have h1: "status boot = Running" by (simp add: boot_def)
  have h2: "sigint_listeners boot = []" by (simp add: boot_def sigint_listeners_def)
  show ?thesis
    using h1 h2
      connect_rejected_registers_no_handler
        [OF h1 h2, where e = "Thrown ''down''" and a = "\<lparr>app = [], port = 4000\<rparr>"
           and disconnected = "\<lambda>i. Fulfilled :: string outcome"]
    by (simp add: init_Rejected boot_def)
qed

text \<open>
  C10. The SIGINT handler does not catch a rejection of \<^verbatim>\<open>disconnect\<close>: resumed with a
  rejected promise it ends rejected with the same reason and makes no call. So take a
  running process with no earlier SIGINT listener and an \<^verbatim>\<open>init\<close> that was fulfilled, and
  let a SIGINT arrive, before or after the server has started to listen. When
  \<^verbatim>\<open>disconnect\<close> rejects, the \<^verbatim>\<open>disconnect\<close> call is all this class adds to the trace: it
  makes no \<^verbatim>\<open>process.exit\<close> call (the process ends all the same, with code 1, by Node's
  handling of the unhandled rejection). Whatever \<^verbatim>\<open>disconnect\<close> does, \<^verbatim>\<open>process.exit\<close> is
  called, with code 0, only when its promise is fulfilled.
\<close>

theorem disconnect_rejected_no_exit:
  assumes "status p = Running" and "sigint_listeners p = []"
    and "fst (init connected a p) = Fulfilled"
    and "q = snd (snd (init connected a p)) \<or>
         emit_listening bound (snd (snd (init connected a p))) = Some q"
    and "disconnected 0 = Rejected e"
  shows "signal_handler_resume StorageShutdown (Rejected e) r = (Rejected e, r) \<and>
         emit_sigint disconnected q =
           ([Rejected e], q\<lparr>trace := trace q @ [StorageDisconnect], status := Exited 1\<rparr>) \<and>
         exit_codes (trace (snd (emit_sigint disconnected q))) = exit_codes (trace q) \<and>
         exit_codes (trace (snd (emit_sigint other q))) =
           exit_codes (trace q) @
           (case other 0 of Fulfilled \<Rightarrow> [0] | Rejected x \<Rightarrow> [] | Pending \<Rightarrow> [])"
proof -
  note started = started_state [OF assms(1-4)]
  have "exit_codes (trace (snd (emit_sigint other q))) =
          exit_codes (trace q) @
          (case other 0 of Fulfilled \<Rightarrow> [0] | Rejected x \<Rightarrow> [] | Pending \<Rightarrow> [])"
    by (cases "other 0") (simp_all add: emit_sigint_single [OF started] exit_codes_append)
  then show ?thesis
    using assms(5) by (simp add: emit_sigint_single [OF started] exit_codes_append)
qed

theorem disconnect_rejected_no_exit_witness:
  "status boot = Running \<and> sigint_listeners boot = [] \<and>
   fst (init (Fulfilled :: string error outcome) \<lparr>app = [], port = 4000\<rparr> boot) = Fulfilled \<and>
   emit_sigint (\<lambda>i. Rejected ''busy'')
     \<lparr>trace =
        [AppUse (Layer None Helmet), AppUse (Layer None (BodyParserUrlencoded True)),
         AppUse (Layer None BodyParserJson), AppUse (Layer None (Morgan '':method :url :status'')),
         AppUse (Layer (Some ''/users'') UserControllerRouter),
         AppUse (Layer None ExceptionFilterCatch),
         StorageConnect, ProcessOn ''SIGINT'' StorageShutdown, AppListen 4000 (LogStarted 4000),
         LoggerInfo ''app'' ''Server started listening on port 4000''],
      listeners = [(''SIGINT'', StorageShutdown)],
      servers = [],
      listening = [4000],
      status = Running\<rparr> =
   ([Rejected ''busy''],
    \<lparr>trace =
        [AppUse (Layer None Helmet), AppUse (Layer None (BodyParserUrlencoded True)),
         AppUse (Layer None BodyParserJson), AppUse (Layer None (Morgan '':method :url :status'')),
         AppUse (Layer (Some ''/users'') UserControllerRouter),
         AppUse (Layer None ExceptionFilterCatch),
         StorageConnect, ProcessOn ''SIGINT'' StorageShutdown, AppListen 4000 (LogStarted 4000),
         LoggerInfo ''app'' ''Server started listening on port 4000'',
         StorageDisconnect],
      listeners = [(''SIGINT'', StorageShutdown)],
      servers = [],
      listening = [4000],
      status = Exited 1\<rparr>)"
proof -
  have h1: "status boot = Running" by (simp add: boot_def)
  have h2: "sigint_listeners boot = []" by (simp add: boot_def sigint_listeners_def)
  have h3: "fst (init (Fulfilled :: string error outcome) \<lparr>app = [], port = 4000\<rparr> boot) = Fulfilled"
    by (simp add: run_4000_init)
  have h5: "(\<lambda>i::nat. Rejected ''busy'') 0 = Rejected ''busy''" by simp
  show ?thesis
    using h1 h2 h3
      disconnect_rejected_no_exit
        [OF h1 h2 h3 disjI2 [OF run_4000_listening] h5, where r = boot
           and other = "\<lambda>i. Pending :: string outcome"]
    by simp
qed

end
